theory Spec2Isabelle
  imports Main "HOL-Library.AList" "HOL-Library.Log_Nat" "HOL-Library.Extended_Nat"
begin

section \<open>Text\<close>

text \<open>
  A Python \<open>str\<close> is modelled as a \<open>string\<close>, one \<open>char\<close> per code point, for text in
  the ASCII range. The character tests are the ones Python's \<open>re\<close> and \<open>str\<close> methods apply
  there: \<open>\s\<close> and \<open>str.strip\<close> take the code points 9 to 13 and 28 to 32 as white space,
  \<open>\d\<close> takes the ten digits, \<open>str.lower\<close> and \<open>str.upper\<close> map the 26 letters.
\<close>

definition is_space :: "char \<Rightarrow> bool" where
  "is_space c \<longleftrightarrow>
     c \<in> {CHR 0x09, CHR 0x0A, CHR 0x0B, CHR 0x0C, CHR 0x0D,
          CHR 0x1C, CHR 0x1D, CHR 0x1E, CHR 0x1F, CHR 0x20}"

definition is_digit :: "char \<Rightarrow> bool" where
  "is_digit c \<longleftrightarrow> c \<in> set ''0123456789''"

definition digit_val :: "char \<Rightarrow> int" where
  "digit_val c =
     (case map_of (zip ''0123456789'' [0, 1, 2, 3, 4, 5, 6, 7, 8, 9]) c of
        Some d \<Rightarrow> d | None \<Rightarrow> 0)"

definition newline :: char where
  "newline = CHR 0x0A"

definition lower_char :: "char \<Rightarrow> char" where
  "lower_char c =
     (case map_of (zip ''ABCDEFGHIJKLMNOPQRSTUVWXYZ'' ''abcdefghijklmnopqrstuvwxyz'') c of
        Some d \<Rightarrow> d | None \<Rightarrow> c)"

definition upper_char :: "char \<Rightarrow> char" where
  "upper_char c =
     (case map_of (zip ''abcdefghijklmnopqrstuvwxyz'' ''ABCDEFGHIJKLMNOPQRSTUVWXYZ'') c of
        Some d \<Rightarrow> d | None \<Rightarrow> c)"

definition lower :: "string \<Rightarrow> string" where
  "lower s = map lower_char s"

definition upper :: "string \<Rightarrow> string" where
  "upper s = map upper_char s"

definition strip :: "string \<Rightarrow> string" where
  "strip s = rev (dropWhile is_space (rev (dropWhile is_space s)))"

definition starts_with :: "string \<Rightarrow> string \<Rightarrow> bool" where
  "starts_with p s \<longleftrightarrow> take (length p) s = p"

text \<open>\<open>p in s\<close>: the pattern occurs at some position of \<open>s\<close>.\<close>

fun contains :: "string \<Rightarrow> string \<Rightarrow> bool" where
  "contains p [] = starts_with p []"
| "contains p (c # s) = (starts_with p (c # s) \<or> contains p s)"

text \<open>The number a string of digits writes.\<close>

definition int_of_digits :: "string \<Rightarrow> int" where
  "int_of_digits s = foldl (\<lambda>a c. 10 * a + digit_val c) 0 s"

text \<open>The longest string of digits \<open>int\<close> converts (CPython 3.11 and later, by default);
  leading zeros count.\<close>

definition max_str_digits :: nat where
  "max_str_digits = 4300"

text \<open>\<open>str(n)\<close> for a natural number.\<close>

fun str_nat :: "nat \<Rightarrow> string" where
  "str_nat n =
     (if n < 10 then [''0123456789'' ! n]
      else str_nat (n div 10) @ [''0123456789'' ! (n mod 10)])"

declare str_nat.simps [simp del]


section \<open>Numbers\<close>

text \<open>
  Every number of this program is read from a string of digits and then only added, halved
  and rounded, so none is negative and no NaN arises. A Python \<open>float\<close> is a double: the
  finite ones are \<open>Dbl m e\<close>, the number \<open>m * 2 ^ e\<close>, kept in the form where \<open>m\<close> is odd
  (zero is \<open>Dbl 0 0\<close>), and \<open>PosInf\<close> is \<open>inf\<close>.
\<close>

datatype pyfloat = Dbl int int | PosInf

datatype pyval = PInt int | PFloat pyfloat

text \<open>The exceptions that can escape: from arithmetic, from \<open>int\<close>, and from the
  spreadsheet library.\<close>

datatype error = OverflowError | ValueError | IllegalCharacterError

function normalize_dbl :: "int \<Rightarrow> int \<Rightarrow> pyfloat" where
  "normalize_dbl m e =
     (if m = 0 then Dbl 0 0
      else if even m then normalize_dbl (m div 2) (e + 1)
      else Dbl m e)"
  by pat_completeness auto
termination
  by (relation "measure (\<lambda>(m, e). nat \<bar>m\<bar>)") auto

declare normalize_dbl.simps [simp del]

text \<open>\<open>scale2 a k\<close> is \<open>a * 2 ^ k\<close> for \<open>k \<ge> 0\<close> and \<open>a\<close> otherwise: the two sides of a
  fraction \<open>a / b * 2 ^ k\<close> are \<open>scale2 a k\<close> and \<open>scale2 b (- k)\<close>.\<close>

definition scale2 :: "int \<Rightarrow> int \<Rightarrow> int" where
  "scale2 a k = (if 0 \<le> k then a * 2 ^ nat k else a)"

text \<open>The integer nearest to \<open>a / b\<close>, a tie going to the even one (\<open>0 \<le> a\<close>, \<open>0 < b\<close>).\<close>

definition round_half_even_div :: "int \<Rightarrow> int \<Rightarrow> int" where
  "round_half_even_div a b =
     (let q = a div b; r = a mod b
      in if 2 * r < b then q else if b < 2 * r then q + 1 else if even q then q else q + 1)"

text \<open>\<open>\<lfloor>log\<^sub>2 (a / b)\<rfloor>\<close> for \<open>0 < a\<close>, \<open>0 < b\<close>.\<close>

definition floor_log2 :: "int \<Rightarrow> int \<Rightarrow> int" where
  "floor_log2 a b =
     (let e0 = bitlen a - bitlen b
      in if scale2 b e0 \<le> scale2 a (- e0) then e0 else e0 - 1)"

text \<open>
  The double nearest to \<open>a / b\<close> (\<open>0 \<le> a\<close>, \<open>0 < b\<close>), ties to even: 53 bits of mantissa,
  exponents from \<open>-1074\<close> (subnormals), \<open>PosInf\<close> when the rounded value reaches \<open>2 ^ 1024\<close>.
\<close>

definition to_double :: "int \<Rightarrow> int \<Rightarrow> pyfloat" where
  "to_double a b =
     (if a = 0 then Dbl 0 0
      else if b * 2 ^ 1024 \<le> a then PosInf
      else let p = max (floor_log2 a b - 52) (- 1074);
               m = round_half_even_div (scale2 a (- p)) (scale2 b p)
           in if 971 < p \<or> (p = 971 \<and> 2 ^ 53 \<le> m) then PosInf
              else normalize_dbl m p)"

text \<open>\<open>float(n)\<close> and \<open>n / d\<close> on ints: both round correctly and raise \<open>OverflowError\<close>
  when the result is too large for a float.\<close>

definition float_of_int :: "int \<Rightarrow> error + pyfloat" where
  "float_of_int n = (case to_double n 1 of PosInf \<Rightarrow> Inl OverflowError | x \<Rightarrow> Inr x)"

definition int_truediv :: "int \<Rightarrow> int \<Rightarrow> error + pyfloat" where
  "int_truediv n d = (case to_double n d of PosInf \<Rightarrow> Inl OverflowError | x \<Rightarrow> Inr x)"

text \<open>\<open>x + y\<close> and \<open>x / 2\<close> on floats: no exception, \<open>inf\<close> on overflow.\<close>

fun float_add :: "pyfloat \<Rightarrow> pyfloat \<Rightarrow> pyfloat" where
  "float_add (Dbl m1 e1) (Dbl m2 e2) =
     (let e = min e1 e2; a = scale2 m1 (e1 - e) + scale2 m2 (e2 - e)
      in to_double (scale2 a e) (scale2 1 (- e)))"
| "float_add _ _ = PosInf"

fun float_half :: "pyfloat \<Rightarrow> pyfloat" where
  "float_half (Dbl m e) = to_double (scale2 m (e - 1)) (scale2 1 (1 - e))"
| "float_half PosInf = PosInf"

text \<open>
  \<open>round(x, 2)\<close> on a float: CPython writes the exact value of the double with two
  decimals, correctly rounded (ties to even), and reads that decimal back as a double.
\<close>

fun py_round2 :: "pyfloat \<Rightarrow> pyfloat" where
  "py_round2 (Dbl m e) =
     to_double (round_half_even_div (scale2 (100 * m) e) (scale2 1 (- e))) 100"
| "py_round2 PosInf = PosInf"

text \<open>\<open>float(v)\<close> and \<open>v / 2\<close> on a value that is an int or a float.\<close>

fun py_float :: "pyval \<Rightarrow> error + pyfloat" where
  "py_float (PInt n) = float_of_int n"
| "py_float (PFloat x) = Inr x"

fun py_half :: "pyval \<Rightarrow> error + pyfloat" where
  "py_half (PInt n) = int_truediv n 2"
| "py_half (PFloat x) = Inr (float_half x)"

text \<open>
  \<open>float(s)\<close> for \<open>s\<close> made of digits and dots with a dot in it: a value when there is one
  dot and a digit, read as the nearest double (\<open>inf\<close> when too large); \<open>ValueError\<close>,
  here \<open>None\<close>, otherwise.
\<close>

definition float_of_string :: "string \<Rightarrow> pyfloat option" where
  "float_of_string s =
     (let ip = takeWhile is_digit s; r = dropWhile is_digit s
      in case r of
           [] \<Rightarrow> None
         | c # fp \<Rightarrow>
             if c = CHR ''.'' \<and> list_all is_digit fp \<and> ip @ fp \<noteq> []
             then Some (to_double (int_of_digits (ip @ fp)) (10 ^ length fp))
             else None)"

text \<open>\<open>int(s)\<close> on a non-empty string of digits: \<open>ValueError\<close> when it is longer than
  \<open>max_str_digits\<close>.\<close>

definition py_int :: "string \<Rightarrow> error + int" where
  "py_int s = (if max_str_digits < length s then Inl ValueError else Inr (int_of_digits s))"

text \<open>\<open>int(s)\<close> under \<open>try\<close>, on any string: \<open>None\<close> is \<open>ValueError\<close>.\<close>

definition int_of_string :: "string \<Rightarrow> int option" where
  "int_of_string s =
     (if s \<noteq> [] \<and> list_all is_digit s \<and> length s \<le> max_str_digits
      then Some (int_of_digits s) else None)"


section \<open>The patterns\<close>

text \<open>
  Each regular expression of the source is matched by a function of its own. In all of
  them a repetition is followed by a character outside the repeated class (or by
  nothing), so the greedy match takes the longest run and backtracking finds no
  other: \<open>takeWhile\<close> and \<open>dropWhile\<close> are the match. \<open>re.match\<close> anchors the pattern
  at the start of the string only; \<open>re.search\<close> takes the leftmost position where it
  matches.
\<close>

text \<open>\<open>re.match(r'(\d+)h(\d+)', s)\<close>: the two groups.\<close>

definition match_time :: "string \<Rightarrow> (string \<times> string) option" where
  "match_time s =
     (let h = takeWhile is_digit s
      in if h = [] then None
         else case dropWhile is_digit s of
                [] \<Rightarrow> None
              | c # r \<Rightarrow>
                  if c = CHR ''h'' \<and> takeWhile is_digit r \<noteq> []
                  then Some (h, takeWhile is_digit r) else None)"

text \<open>\<open>Booking:\s*(\d+)\<close> at the start of \<open>s\<close>, and searched through \<open>s\<close>.\<close>

definition match_booking_at :: "string \<Rightarrow> string option" where
  "match_booking_at s =
     (if starts_with ''Booking:'' s
      then let d = takeWhile is_digit (dropWhile is_space (drop 8 s))
           in if d = [] then None else Some d
      else None)"

fun search_booking :: "string \<Rightarrow> string option" where
  "search_booking [] = match_booking_at []"
| "search_booking (c # s) =
     (case match_booking_at (c # s) of Some d \<Rightarrow> Some d | None \<Rightarrow> search_booking s)"

text \<open>\<open>\s*Route\s+(\S+)\s+(.*)\<close> at the start of the line: the two groups. The dot
  takes every character but the newline.\<close>

definition match_route :: "string \<Rightarrow> (string \<times> string) option" where
  "match_route line =
     (let s1 = dropWhile is_space line
      in if \<not> starts_with ''Route'' s1 then None
         else let s2 = drop 5 s1; s3 = dropWhile is_space s2;
                  num = takeWhile (\<lambda>c. \<not> is_space c) s3;
                  s4 = dropWhile (\<lambda>c. \<not> is_space c) s3;
                  s5 = dropWhile is_space s4
              in if takeWhile is_space s2 = [] \<or> num = [] \<or> takeWhile is_space s4 = []
                 then None
                 else Some (num, takeWhile (\<lambda>c. c \<noteq> newline) s5))"

text \<open>The three captured classes of the field patterns: \<open>\d\<close>, \<open>[\dhm]\<close>, \<open>[\d\.]\<close>.\<close>

datatype charclass = Digits | DigitsHM | DigitsDot

fun in_class :: "charclass \<Rightarrow> char \<Rightarrow> bool" where
  "in_class Digits c = is_digit c"
| "in_class DigitsHM c = (is_digit c \<or> c = CHR ''h'' \<or> c = CHR ''m'')"
| "in_class DigitsDot c = (is_digit c \<or> c = CHR ''.'')"

text \<open>A field pattern \<open>label\s*:\s*(class+)\<close> is its label and its class.\<close>

type_synonym pattern = "string \<times> charclass"

definition match_field_at :: "pattern \<Rightarrow> string \<Rightarrow> string option" where
  "match_field_at pat s =
     (if starts_with (fst pat) s
      then case dropWhile is_space (drop (length (fst pat)) s) of
             [] \<Rightarrow> None
           | c # r \<Rightarrow>
               let v = takeWhile (in_class (snd pat)) (dropWhile is_space r)
               in if c = CHR '':'' \<and> v \<noteq> [] then Some v else None
      else None)"

fun search_field :: "pattern \<Rightarrow> string \<Rightarrow> string option" where
  "search_field pat [] = match_field_at pat []"
| "search_field pat (c # s) =
     (case match_field_at pat (c # s) of Some v \<Rightarrow> Some v | None \<Rightarrow> search_field pat s)"

text \<open>\<open>re.match(r'(\d+)', route)\<close>: the leading digits, if any.\<close>

definition match_leading_int :: "string \<Rightarrow> string option" where
  "match_leading_int s = (let d = takeWhile is_digit s in if d = [] then None else Some d)"


section \<open>The extractor\<close>

definition data_fields :: "(string \<times> pattern option) list" where
  "data_fields =
     [(''Blocks'', Some (''Number of blocks'', Digits)),
      (''Trips'', Some (''Number of in-service trips'', Digits)),
      (''Off Service Duration'', Some (''Off-service duration'', DigitsHM)),
      (''In Service Duration'', Some (''In-service duration'', DigitsHM)),
      (''Loading Duration'', Some (''Loading duration'', DigitsHM)),
      (''Layover Duration'', Some (''Layover duration'', DigitsHM)),
      (''Platform Hours'', Some (''Total duration'', DigitsHM)),
      (''In-service Distance (KM)'', Some (''In-service distance'', DigitsDot)),
      (''Revenue Hours'', None)]"

definition file_order :: "string list" where
  "file_order = [''WDY Stats.prt'', ''SAT Stats.prt'', ''SUN Stats.prt'']"

text \<open>A record of a route is a dict from field name to value, the data of a file a dict
  from route to record; both keep the order in which their keys were first stored.\<close>

type_synonym route_record = "(string \<times> pyval) list"

type_synonym route_data = "(string \<times> route_record) list"

definition parse_time_string :: "string \<Rightarrow> error + pyfloat" where
  "parse_time_string time_str =
     (case match_time time_str of
        Some (h, m) \<Rightarrow>
          (case py_int h of
             Inl e \<Rightarrow> Inl e
           | Inr hours \<Rightarrow>
               (case py_int m of
                  Inl e \<Rightarrow> Inl e
                | Inr minutes \<Rightarrow>
                    (case int_truediv minutes 60 of
                       Inl e \<Rightarrow> Inl e
                     | Inr q \<Rightarrow>
                         (case float_of_int hours of
                            Inl e \<Rightarrow> Inl e
                          | Inr x \<Rightarrow> Inr (py_round2 (float_add x q))))))
      | None \<Rightarrow> Inr (Dbl 0 0))"

fun extract_booking_code :: "string list \<Rightarrow> string" where
  "extract_booking_code [] = ''unknown''"
| "extract_booking_code (line # lines) =
     (case search_booking line of Some d \<Rightarrow> d | None \<Rightarrow> extract_booking_code lines)"

text \<open>The value stored for a captured string (\<open>strip\<close> first, as the source does).\<close>

definition field_value :: "string \<Rightarrow> string \<Rightarrow> error + pyval" where
  "field_value field_name captured =
     (let val = strip captured
      in if contains ''Duration'' field_name \<or> field_name = ''Platform Hours''
         then (case parse_time_string val of Inl e \<Rightarrow> Inl e | Inr x \<Rightarrow> Inr (PFloat x))
         else if CHR ''.'' \<in> set val
         then (case float_of_string val of Some x \<Rightarrow> Inr (PFloat x) | None \<Rightarrow> Inr (PInt 0))
         else (case int_of_string val of Some n \<Rightarrow> Inr (PInt n) | None \<Rightarrow> Inr (PInt 0)))"

definition new_record :: route_record where
  "new_record =
     map (\<lambda>field. (fst field, if fst field \<noteq> ''Revenue Hours'' then PInt 0 else PFloat (Dbl 0 0)))
       data_fields"

text \<open>The inner loop over \<open>data_fields\<close> for one line, on the record of the current route.\<close>

fun scan_fields :: "(string \<times> pattern option) list \<Rightarrow> string \<Rightarrow> route_record \<Rightarrow> error + route_record" where
  "scan_fields [] line rec = Inr rec"
| "scan_fields ((field_name, None) # fields) line rec = scan_fields fields line rec"
| "scan_fields ((field_name, Some regex) # fields) line rec =
     (case search_field regex line of
        None \<Rightarrow> scan_fields fields line rec
      | Some captured \<Rightarrow>
          (case field_value field_name captured of
             Inl e \<Rightarrow> Inl e
           | Inr val \<Rightarrow> scan_fields fields line (AList.update field_name val rec)))"

text \<open>The loop over the lines: the state is \<open>data\<close> and \<open>current_route\<close>. The record of
  the current route is in \<open>data\<close> from the moment the route is current.\<close>

fun scan_lines :: "string list \<Rightarrow> route_data \<Rightarrow> string option \<Rightarrow> error + route_data" where
  "scan_lines [] data current_route = Inr data"
| "scan_lines (line # lines) data current_route =
     (case match_route line of
        Some (route_num, rest) \<Rightarrow>
          (let route = route_num @ '' '' @ strip rest
           in scan_lines lines (AList.update route new_record data) (Some route))
      | None \<Rightarrow>
          (case current_route of
             None \<Rightarrow> scan_lines lines data None
           | Some route \<Rightarrow>
               (case map_of data route of
                  None \<Rightarrow> scan_lines lines data current_route
                | Some rec \<Rightarrow>
                    (case scan_fields data_fields line rec of
                       Inl e \<Rightarrow> Inl e
                     | Inr rec' \<Rightarrow>
                         scan_lines lines (AList.update route rec' data) current_route))))"

text \<open>\<open>d.get(key, 0)\<close>.\<close>

definition get_or_zero :: "route_record \<Rightarrow> string \<Rightarrow> pyval" where
  "get_or_zero rec key = (case map_of rec key of Some v \<Rightarrow> v | None \<Rightarrow> PInt 0)"

definition compute_revenue :: "route_record \<Rightarrow> error + route_record" where
  "compute_revenue rec =
     (case py_float (get_or_zero rec ''In Service Duration'') of
        Inl e \<Rightarrow> Inl e
      | Inr in_service \<Rightarrow>
          (case py_float (get_or_zero rec ''Layover Duration'') of
             Inl e \<Rightarrow> Inl e
           | Inr layover \<Rightarrow>
               Inr (AList.update ''Revenue Hours''
                      (PFloat (py_round2 (float_add in_service layover))) rec)))"

text \<open>\<open>round(v / 2, 2)\<close>.\<close>

definition halve :: "pyval \<Rightarrow> error + pyval" where
  "halve v = (case py_half v of Inl e \<Rightarrow> Inl e | Inr x \<Rightarrow> Inr (PFloat (py_round2 x)))"

fun halve_record :: "route_record \<Rightarrow> error + route_record" where
  "halve_record [] = Inr []"
| "halve_record ((key, v) # rec) =
     (case halve v of
        Inl e \<Rightarrow> Inl e
      | Inr v' \<Rightarrow> (case halve_record rec of Inl e \<Rightarrow> Inl e | Inr rec' \<Rightarrow> Inr ((key, v') # rec')))"

definition is_senior_shopper :: "string \<Rightarrow> bool" where
  "is_senior_shopper route \<longleftrightarrow> lower (strip route) = ''65 senior shopper''"

definition post_route :: "string \<Rightarrow> route_record \<Rightarrow> error + route_record" where
  "post_route route rec =
     (case compute_revenue rec of
        Inl e \<Rightarrow> Inl e
      | Inr rec1 \<Rightarrow> if is_senior_shopper route then halve_record rec1 else Inr rec1)"

text \<open>The second loop, over the routes of \<open>data\<close> in their order; each route's record is
  replaced in place.\<close>

fun post_pass :: "route_data \<Rightarrow> error + route_data" where
  "post_pass [] = Inr []"
| "post_pass ((route, rec) # data) =
     (case post_route route rec of
        Inl e \<Rightarrow> Inl e
      | Inr rec' \<Rightarrow>
          (case post_pass data of Inl e \<Rightarrow> Inl e | Inr data' \<Rightarrow> Inr ((route, rec') # data')))"

text \<open>\<open>extract_data\<close> on the lines that \<open>readlines\<close> gave.\<close>

definition extract_data :: "string list \<Rightarrow> error + (string \<times> route_data)" where
  "extract_data lines =
     (let booking_code = extract_booking_code lines
      in case scan_lines lines [] None of
           Inl e \<Rightarrow> Inl e
         | Inr data \<Rightarrow>
             (case post_pass data of Inl e \<Rightarrow> Inl e | Inr data' \<Rightarrow> Inr (booking_code, data')))"


section \<open>The aggregator and the table builder\<close>

text \<open>\<open>route_sort_key\<close>: the leading integer, or \<open>float('inf')\<close>. Python compares an int
  with \<open>inf\<close> exactly, as \<open>enat\<close> does. The \<open>int\<close> of a run of digits that is too long
  raises.\<close>

definition route_sort_key :: "string \<Rightarrow> error + enat" where
  "route_sort_key route =
     (case match_leading_int route of
        Some d \<Rightarrow> (case py_int d of Inl e \<Rightarrow> Inl e | Inr n \<Rightarrow> Inr (enat (nat n)))
      | None \<Rightarrow> Inr \<infinity>)"

text \<open>
  The worksheet of the spreadsheet library, as far as this program uses it: the value and
  the fill colour of each cell, by row and column from 1, the merged ranges and the
  title. A cell never written has no value. Fonts and alignments are left out, and so
  is the saving of the workbook to a file.
  \<open>delete_rows\<close> removes one row and moves the rows below it up by one.
  A string given to a cell is cut to its first 32767 characters and then refused, with
  \<open>IllegalCharacterError\<close>, when a control character other than tab, line feed and
  carriage return is in it. The route identifiers are the only strings of unknown content
  this program writes, so they are the ones passed through \<open>check_string\<close>; the
  others (the headers, the empty string, \<open>Total\<close>, the formulas) are short and made of
  letters, digits and punctuation, and are stored as they are.
\<close>

datatype cellval = CStr string | CNum pyval

record worksheet =
  title :: string
  cells :: "nat \<times> nat \<Rightarrow> cellval option"
  fills :: "nat \<times> nat \<Rightarrow> string option"
  merged :: "(nat \<times> nat \<times> nat \<times> nat) list"

definition new_worksheet :: worksheet where
  "new_worksheet = \<lparr>title = ''Sheet'', cells = (\<lambda>_. None), fills = (\<lambda>_. None), merged = []\<rparr>"

definition set_cell :: "nat \<Rightarrow> nat \<Rightarrow> cellval \<Rightarrow> worksheet \<Rightarrow> worksheet" where
  "set_cell row col v ws = ws\<lparr>cells := (cells ws)((row, col) \<mapsto> v)\<rparr>"

definition set_fill :: "nat \<Rightarrow> nat \<Rightarrow> string \<Rightarrow> worksheet \<Rightarrow> worksheet" where
  "set_fill row col colour ws = ws\<lparr>fills := (fills ws)((row, col) \<mapsto> colour)\<rparr>"

definition merge_cells :: "nat \<Rightarrow> nat \<Rightarrow> nat \<Rightarrow> nat \<Rightarrow> worksheet \<Rightarrow> worksheet" where
  "merge_cells start_row start_col end_row end_col ws =
     ws\<lparr>merged := merged ws @ [(start_row, start_col, end_row, end_col)]\<rparr>"

definition delete_rows :: "nat \<Rightarrow> worksheet \<Rightarrow> worksheet" where
  "delete_rows idx ws =
     ws\<lparr>cells := (\<lambda>(r, c). if r < idx then cells ws (r, c) else cells ws (Suc r, c)),
        fills := (\<lambda>(r, c). if r < idx then fills ws (r, c) else fills ws (Suc r, c))\<rparr>"

definition is_illegal_char :: "char \<Rightarrow> bool" where
  "is_illegal_char c \<longleftrightarrow>
     c \<in> {CHR 0x00, CHR 0x01, CHR 0x02, CHR 0x03, CHR 0x04, CHR 0x05, CHR 0x06, CHR 0x07,
          CHR 0x08, CHR 0x0B, CHR 0x0C, CHR 0x0E, CHR 0x0F, CHR 0x10, CHR 0x11, CHR 0x12,
          CHR 0x13, CHR 0x14, CHR 0x15, CHR 0x16, CHR 0x17, CHR 0x18, CHR 0x19, CHR 0x1A,
          CHR 0x1B, CHR 0x1C, CHR 0x1D, CHR 0x1E, CHR 0x1F}"

definition check_string :: "string \<Rightarrow> error + string" where
  "check_string s =
     (let v = take 32767 s
      in if list_ex is_illegal_char v then Inl IllegalCharacterError else Inr v)"

definition color_map :: "(string \<times> string) list" where
  "color_map =
     [(''WDY Stats.prt'', ''0070C0''), (''SAT Stats.prt'', ''FF0000''),
      (''SUN Stats.prt'', ''000000'')]"

definition beige_fill :: string where
  "beige_fill = ''F5F5DC''"

definition revenue_fill :: string where
  "revenue_fill = ''FFFF99''"

text \<open>The aggregated dataset: a dict from file name to the data of that file.\<close>

type_synonym all_data = "(string \<times> route_data) list"

text \<open>\<open>f in all_data\<close>.\<close>

definition has_file :: "all_data \<Rightarrow> string \<Rightarrow> bool" where
  "has_file all_data f \<longleftrightarrow> map_of all_data f \<noteq> None"

text \<open>\<open>f.split()[0]\<close>, for a name with a token in it (the three of \<open>file_order\<close> have).\<close>

definition first_token :: "string \<Rightarrow> string" where
  "first_token f = takeWhile (\<lambda>c. \<not> is_space c) (dropWhile is_space f)"

definition headers :: "all_data \<Rightarrow> string list" where
  "headers all_data =
     ''Route number'' #
     concat (map (\<lambda>f. if has_file all_data f then map fst data_fields else []) file_order)"

text \<open>Row 2: \<open>enumerate(headers, 1)\<close>, the column counted up from \<open>col\<close>.\<close>

fun write_header_row :: "string list \<Rightarrow> nat \<Rightarrow> worksheet \<Rightarrow> worksheet" where
  "write_header_row [] col ws = ws"
| "write_header_row (header # hs) col ws =
     write_header_row hs (Suc col) (set_fill 2 col beige_fill (set_cell 2 col (CStr header) ws))"

text \<open>Row 1: one merged, coloured cell for each file of \<open>file_order\<close> that is present,
  from \<open>start_col\<close> on.\<close>

fun write_day_headers :: "string list \<Rightarrow> all_data \<Rightarrow> nat \<Rightarrow> worksheet \<Rightarrow> worksheet" where
  "write_day_headers [] all_data start_col ws = ws"
| "write_day_headers (f # fs) all_data start_col ws =
     (if has_file all_data f
      then let color = (case map_of color_map f of Some c \<Rightarrow> c | None \<Rightarrow> ''FFFFFF'');
               ws1 = merge_cells 1 start_col 1 (start_col + length data_fields - 1) ws;
               ws2 = set_cell 1 start_col (CStr (first_token f)) ws1;
               ws3 = set_fill 1 start_col color ws2
           in write_day_headers fs all_data (start_col + length data_fields) ws3
      else write_day_headers fs all_data start_col ws)"

text \<open>The set comprehension over the routes of all files visits them file by file; the
  order in which the resulting set is then iterated depends on the hashes of the strings,
  so it is a parameter \<open>set_order\<close>: some arrangement, without repetition, of the
  elements it is given. \<open>sorted\<close> computes the key of every element first, in that
  order, and then sorts the elements by their keys; it is a stable sort, as \<open>sort_key\<close>
  is.\<close>

definition route_keys :: "all_data \<Rightarrow> string list" where
  "route_keys all_data = concat (map (\<lambda>d. map fst (snd d)) all_data)"

fun sort_keys :: "string list \<Rightarrow> error + (enat \<times> string) list" where
  "sort_keys [] = Inr []"
| "sort_keys (route # routes) =
     (case route_sort_key route of
        Inl e \<Rightarrow> Inl e
      | Inr k \<Rightarrow>
          (case sort_keys routes of Inl e \<Rightarrow> Inl e | Inr ks \<Rightarrow> Inr ((k, route) # ks)))"

definition all_routes :: "(string list \<Rightarrow> string list) \<Rightarrow> all_data \<Rightarrow> error + string list" where
  "all_routes set_order all_data =
     (case sort_keys (set_order (route_keys all_data)) of
        Inl e \<Rightarrow> Inl e
      | Inr ks \<Rightarrow> Inr (map snd (sort_key fst ks)))"

text \<open>The cells of one route for one file: \<open>enumerate(data_fields)\<close>, the column counted
  up from \<open>col_offset\<close>.\<close>

fun write_route_fields ::
  "(string \<times> pattern option) list \<Rightarrow> route_record \<Rightarrow> nat \<Rightarrow> nat \<Rightarrow> worksheet \<Rightarrow> worksheet" where
  "write_route_fields [] route_data row col ws = ws"
| "write_route_fields ((field_name, regex) # others) route_data row col ws =
     (let val = (case map_of route_data field_name of Some v \<Rightarrow> CNum v | None \<Rightarrow> CStr []);
          ws1 = set_cell row col val ws;
          ws2 = (if field_name = ''Revenue Hours'' then set_fill row col revenue_fill ws1 else ws1)
      in write_route_fields others route_data row (Suc col) ws2)"

text \<open>The loop over \<open>enumerate(file_order)\<close> for one route.\<close>

fun write_route_files ::
  "(nat \<times> string) list \<Rightarrow> all_data \<Rightarrow> string \<Rightarrow> nat \<Rightarrow> worksheet \<Rightarrow> worksheet" where
  "write_route_files [] all_data route row ws = ws"
| "write_route_files ((file_idx, f) # fs) all_data route row ws =
     (case map_of all_data f of
        None \<Rightarrow> write_route_files fs all_data route row ws
      | Some data \<Rightarrow>
          (let col_offset = 2 + file_idx * length data_fields;
               route_data = (case map_of data route of Some r \<Rightarrow> r | None \<Rightarrow> [])
           in write_route_files fs all_data route row
                (write_route_fields data_fields route_data row col_offset ws)))"

text \<open>The loop over the routes: the state is the sheet and \<open>row_idx\<close>.\<close>

fun write_routes ::
  "string list \<Rightarrow> all_data \<Rightarrow> nat \<Rightarrow> worksheet \<Rightarrow> error + (worksheet \<times> nat)" where
  "write_routes [] all_data row_idx ws = Inr (ws, row_idx)"
| "write_routes (route # routes) all_data row_idx ws =
     (case check_string route of
        Inl e \<Rightarrow> Inl e
      | Inr v \<Rightarrow>
          write_routes routes all_data (Suc row_idx)
            (write_route_files (List.enumerate 0 file_order) all_data route row_idx
               (set_cell row_idx 1 (CStr v) ws)))"

text \<open>\<open>val and "TAXI" in str(val).upper()\<close> on the value of a cell of column 1. A number
  written out has no \<open>TAXI\<close> in it.\<close>

definition is_taxi :: "cellval option \<Rightarrow> bool" where
  "is_taxi val =
     (case val of
        Some (CStr s) \<Rightarrow> s \<noteq> [] \<and> contains ''TAXI'' (upper s)
      | _ \<Rightarrow> False)"

definition remove_taxi :: "worksheet \<Rightarrow> nat \<Rightarrow> worksheet \<times> nat" where
  "remove_taxi ws row_idx =
     (case find (\<lambda>row. is_taxi (cells ws (row, 1))) [3..<row_idx] of
        Some row \<Rightarrow> (delete_rows row ws, row_idx - 1)
      | None \<Rightarrow> (ws, row_idx))"

text \<open>\<open>get_column_letter\<close>: \<open>A\<close> to \<open>Z\<close>, then \<open>AA\<close>, \<open>AB\<close> and so on.\<close>

function get_column_letter :: "nat \<Rightarrow> string" where
  "get_column_letter n =
     (if n = 0 then []
      else get_column_letter ((n - 1) div 26) @ [''ABCDEFGHIJKLMNOPQRSTUVWXYZ'' ! ((n - 1) mod 26)])"
  by pat_completeness auto
termination
  by (relation "measure id") auto

declare get_column_letter.simps [simp del]

fun write_total_fields ::
  "(string \<times> pattern option) list \<Rightarrow> nat \<Rightarrow> nat \<Rightarrow> worksheet \<Rightarrow> worksheet" where
  "write_total_fields [] total_row_idx col ws = ws"
| "write_total_fields (field # others) total_row_idx col ws =
     (let col_letter = get_column_letter col;
          formula = ''=SUM('' @ col_letter @ ''3:'' @ col_letter @ str_nat (total_row_idx - 1) @ '')''
      in write_total_fields others total_row_idx (Suc col)
           (set_cell total_row_idx col (CStr formula) ws))"

fun write_totals :: "(nat \<times> string) list \<Rightarrow> all_data \<Rightarrow> nat \<Rightarrow> worksheet \<Rightarrow> worksheet" where
  "write_totals [] all_data total_row_idx ws = ws"
| "write_totals ((file_idx, f) # fs) all_data total_row_idx ws =
     (if has_file all_data f
      then write_totals fs all_data total_row_idx
             (write_total_fields data_fields total_row_idx (2 + file_idx * length data_fields) ws)
      else write_totals fs all_data total_row_idx ws)"

text \<open>\<open>write_to_excel\<close>: the sheet that is saved, and the name of the download.\<close>

definition write_header :: "all_data \<Rightarrow> worksheet" where
  "write_header all_data =
     (let ws0 = new_worksheet\<lparr>title := ''Vehicle Schedule Overview''\<rparr>;
          ws1 = write_header_row (headers all_data) 1 ws0;
          ws2 = set_fill 1 1 beige_fill (set_cell 1 1 (CStr ''Route number'') (merge_cells 1 1 2 1 ws1))
      in write_day_headers file_order all_data 2 ws2)"

definition write_to_excel ::
  "(string list \<Rightarrow> string list) \<Rightarrow> all_data \<Rightarrow> string \<Rightarrow> error + (worksheet \<times> string)" where
  "write_to_excel set_order all_data booking_code =
     (let ws3 = write_header all_data
      in case all_routes set_order all_data of
           Inl e \<Rightarrow> Inl e
         | Inr routes \<Rightarrow>
             (case write_routes routes all_data 3 ws3 of
                Inl e \<Rightarrow> Inl e
              | Inr (ws4, row_idx) \<Rightarrow>
                  (let (ws5, total_row_idx) = remove_taxi ws4 row_idx;
                       ws6 = set_cell total_row_idx 1 (CStr ''Total'') ws5;
                       ws7 = write_totals (List.enumerate 0 file_order) all_data total_row_idx ws6;
                       safe_booking_code =
                         (if lower booking_code \<noteq> ''unknown'' then booking_code else ''Unknown'')
                   in Inr (ws7, safe_booking_code @ '' - Vehicle Schedule Overview.xlsx''))))"

text \<open>The loop over the uploaded files, each a name and its lines: the state is
  \<open>all_data\<close> and \<open>booking_code\<close>.\<close>

fun upload_loop ::
  "(string \<times> string list) list \<Rightarrow> all_data \<Rightarrow> string \<Rightarrow> error + (all_data \<times> string)" where
  "upload_loop [] all_data booking_code = Inr (all_data, booking_code)"
| "upload_loop ((name, lines) # files) all_data booking_code =
     (case extract_data lines of
        Inl e \<Rightarrow> Inl e
      | Inr (bc, data) \<Rightarrow>
          upload_loop files (AList.update name data all_data)
            (if lower bc \<noteq> ''unknown'' \<and> booking_code = ''unknown'' then bc else booking_code))"

text \<open>The script: nothing when no file is uploaded, else the sheet and its name, or the
  exception that escaped.\<close>

definition report ::
  "(string list \<Rightarrow> string list) \<Rightarrow> (string \<times> string list) list \<Rightarrow> (error + worksheet \<times> string) option" where
  "report set_order uploaded_files =
     (if uploaded_files = [] then None
      else Some (case upload_loop uploaded_files [] ''unknown'' of
                   Inl e \<Rightarrow> Inl e
                 | Inr (all_data, booking_code) \<Rightarrow>
                     write_to_excel set_order all_data booking_code))"


section \<open>Definitions the properties are stated with\<close>

text \<open>The number a finite double stands for.\<close>

fun dbl_value :: "pyfloat \<Rightarrow> rat option" where
  "dbl_value (Dbl m e) = Some (of_int m * 2 powi e)"
| "dbl_value PosInf = None"

text \<open>The specification's shape of a duration, read as the whole string:
  digits, \<open>h\<close>, digits.\<close>

definition is_duration_shape :: "string \<Rightarrow> bool" where
  "is_duration_shape s \<longleftrightarrow>
     (let h = takeWhile is_digit s
      in h \<noteq> [] \<and>
         (case dropWhile is_digit s of
            [] \<Rightarrow> False
          | c # m \<Rightarrow> c = CHR ''h'' \<and> m \<noteq> [] \<and> list_all is_digit m))"







section \<open>Properties\<close>

subsection \<open>Evaluation\<close>

lemmas num_eval = to_double_def floor_log2_def round_half_even_div_def scale2_def
  compute_bitlen normalize_dbl.simps Let_def float_of_int_def int_truediv_def

lemmas text_eval = is_digit_def is_space_def digit_val_def int_of_digits_def starts_with_def
  strip_def lower_def upper_def lower_char_def upper_char_def newline_def max_str_digits_def
  py_int_def




subsection \<open>Durations\<close>

lemma is_digit_h [simp]: "\<not> is_digit CHR ''h''"
  by (simp add: is_digit_def)

lemma match_time_prefix:
  assumes "hs \<noteq> []" "list_all is_digit hs" "ms \<noteq> []" "list_all is_digit ms"
    and "rest = [] \<or> \<not> is_digit (hd rest)"
  shows "match_time (hs @ ''h'' @ ms @ rest) = Some (hs, ms)"
proof -
  have h: "takeWhile is_digit (hs @ ''h'' @ ms @ rest) = hs"
    using assms(2) by (simp add: list_all_iff takeWhile_append2)
  have d: "dropWhile is_digit (hs @ ''h'' @ ms @ rest) = ''h'' @ ms @ rest"
    using assms(2) by (simp add: list_all_iff dropWhile_append2)
  have m: "takeWhile is_digit (ms @ rest) = ms"
    using assms(4,5) by (cases rest) (simp_all add: list_all_iff takeWhile_append2)
  show ?thesis
    using assms(1,3) h d m by (simp add: match_time_def)
qed

lemma match_time_Some:
  assumes "match_time s = Some (h, m)"
  shows "\<exists>rest. s = h @ ''h'' @ m @ rest \<and> h \<noteq> [] \<and> list_all is_digit h
           \<and> m \<noteq> [] \<and> list_all is_digit m"
proof -
  from assms obtain r where h: "h = takeWhile is_digit s" "h \<noteq> []"
    and d: "dropWhile is_digit s = CHR ''h'' # r"
    and m: "m = takeWhile is_digit r" "m \<noteq> []"
    by (auto simp: match_time_def Let_def split: if_splits list.splits)
  have "s = h @ dropWhile is_digit s"
    by (simp add: h)
  then have "s = h @ ''h'' @ m @ dropWhile is_digit r"
    by (simp add: d m)
  moreover have "list_all is_digit h" "list_all is_digit m"
    by (auto simp: h m list_all_iff dest: set_takeWhileD)
  ultimately show ?thesis
    using h(2) m(2) by blast
qed

text \<open>
  C4 (amended). A captured string that begins with digits, \<open>h\<close>, digits (whatever follows
  the second run of digits) is converted to \<open>round(hours + minutes / 60, 2)\<close> in float
  arithmetic, when neither run of digits is longer than the 4300 characters \<open>int\<close>
  accepts and the hour count and \<open>minutes / 60\<close> fit a float; a string with no such
  beginning gives \<open>0.0\<close>; \<open>3h45\<close> gives the double \<open>15 * 2 ^ - 2\<close>, that is \<open>3.75\<close>.
\<close>

theorem parse_time_string_prefix:
  "(hs \<noteq> [] \<and> list_all is_digit hs \<and> ms \<noteq> [] \<and> list_all is_digit ms
      \<and> (rest = [] \<or> \<not> is_digit (hd rest))
      \<and> length hs \<le> max_str_digits \<and> length ms \<le> max_str_digits
      \<and> float_of_int (int_of_digits hs) = Inr hours
      \<and> int_truediv (int_of_digits ms) 60 = Inr q
    \<longrightarrow> parse_time_string (hs @ ''h'' @ ms @ rest) = Inr (py_round2 (float_add hours q)))
   \<and> ((\<nexists>h m r. s = h @ ''h'' @ m @ r \<and> h \<noteq> [] \<and> list_all is_digit h
              \<and> m \<noteq> [] \<and> list_all is_digit m)
    \<longrightarrow> parse_time_string s = Inr (Dbl 0 0))
   \<and> parse_time_string ''3h45'' = Inr (Dbl 15 (- 2))
   \<and> dbl_value (Dbl 15 (- 2)) = Some (15 / 4)"
proof (intro conjI impI)
  assume a: "hs \<noteq> [] \<and> list_all is_digit hs \<and> ms \<noteq> [] \<and> list_all is_digit ms
      \<and> (rest = [] \<or> \<not> is_digit (hd rest))
      \<and> length hs \<le> max_str_digits \<and> length ms \<le> max_str_digits
      \<and> float_of_int (int_of_digits hs) = Inr hours
      \<and> int_truediv (int_of_digits ms) 60 = Inr q"
  then have "match_time (hs @ ''h'' @ ms @ rest) = Some (hs, ms)"
    by (intro match_time_prefix) simp_all
  with a show "parse_time_string (hs @ ''h'' @ ms @ rest) = Inr (py_round2 (float_add hours q))"
    by (simp add: parse_time_string_def py_int_def)
next
  assume n: "\<nexists>h m r. s = h @ ''h'' @ m @ r \<and> h \<noteq> [] \<and> list_all is_digit h
              \<and> m \<noteq> [] \<and> list_all is_digit m"
  have "match_time s = None"
  proof (cases "match_time s")
    case (Some hm)
    then show ?thesis
      using match_time_Some [of s "fst hm" "snd hm"] n by auto
  qed simp
  then show "parse_time_string s = Inr (Dbl 0 0)"
    by (simp add: parse_time_string_def)
next
  show "parse_time_string ''3h45'' = Inr (Dbl 15 (- 2))"
    by (simp add: parse_time_string_def match_time_def text_eval num_eval)
next
  show "dbl_value (Dbl 15 (- 2)) = Some (15 / 4)"
    by (simp add: power_int_minus)
qed

theorem parse_time_string_prefix_witness:
  "parse_time_string ''2h15m'' = Inr (Dbl 9 (- 2)) \<and> parse_time_string ''h15'' = Inr (Dbl 0 0)"
proof -
  have a: "''2'' \<noteq> [] \<and> list_all is_digit ''2'' \<and> ''15'' \<noteq> [] \<and> list_all is_digit ''15''
      \<and> (''m'' = [] \<or> \<not> is_digit (hd ''m''))
      \<and> length ''2'' \<le> max_str_digits \<and> length ''15'' \<le> max_str_digits
      \<and> float_of_int (int_of_digits ''2'') = Inr (Dbl 1 1)
      \<and> int_truediv (int_of_digits ''15'') 60 = Inr (Dbl 1 (- 2))"
    by (simp add: text_eval num_eval)
  have r: "py_round2 (float_add (Dbl 1 1) (Dbl 1 (- 2))) = Dbl 9 (- 2)"
    by (simp add: num_eval)
  have n: "\<nexists>h m r. ''h15'' = h @ ''h'' @ m @ r \<and> h \<noteq> [] \<and> list_all is_digit h
              \<and> m \<noteq> [] \<and> list_all is_digit m"
    by (auto simp: Cons_eq_append_conv)
  from parse_time_string_prefix [of "''2''" "''15''" "''m''" "Dbl 1 1" "Dbl 1 (- 2)" "''h15''"] a r n
  show ?thesis
    by simp
qed

text \<open>
  C4 as stated fails: \<open>3h45m\<close> is not of the shape digits, \<open>h\<close>, digits, and its value is
  \<open>3.75\<close>, not \<open>0.0\<close>.
\<close>

theorem parse_time_string_shape_counterexample:
  "\<not> (is_duration_shape ''3h45m'' \<or> parse_time_string ''3h45m'' = Inr (Dbl 0 0))"
  by (simp add: is_duration_shape_def parse_time_string_def match_time_def text_eval num_eval)


subsection \<open>Searching a line\<close>






lemma search_field_hit:
  "match_field_at pat (c # s) = Some v \<Longrightarrow> search_field pat (c # s) = Some v"
  by simp





subsection \<open>Exceptions that escape the extractor\<close>




subsection \<open>Revenue Hours and the halving rule\<close>












end
